theory Spec2Isabelle
  imports Main "HOL-Library.Word"
begin

section \<open>Record model (pkg/models)\<close>

text \<open>
  Go's \<open>int\<close> is modelled as a 64-bit word read as a signed number (\<open>sint\<close>), the size it
  has on 64-bit targets: addition wraps around silently, comparisons are signed.
  A \<open>time.Time\<close> is an instant counted in nanoseconds from January 1 of year 1, UTC; a
  \<open>time.Duration\<close> is a number of nanoseconds.
\<close>

type_synonym go_int = "64 word"
type_synonym go_time = int
type_synonym duration = int

record Directory =
  ID :: string
  Slug :: string
  Name :: string
  URL :: string
  Description :: string
  Categories :: "string list"
  Pricing :: string
  LinkType :: string
  DomainRating :: go_int
  OrganicTraffic :: go_int
  OrganicKeywords :: go_int
  HelpfulCount :: go_int
  ViewCount :: go_int
  SubmissionURL :: string
  IsAffiliate :: bool
  AffiliateURL :: string
  IsActive :: bool
  CreatedAt :: go_time
  UpdatedAt :: go_time

text \<open>
  The fields of \<open>FilterOptions\<close> that share a name with a field of \<open>Directory\<close> carry the
  suffix \<open>_opt\<close>.
\<close>

record FilterOptions =
  Query :: string
  Categories_opt :: "string list"
  Pricing_opt :: "string list"
  LinkType_opt :: "string list"
  DRMin :: go_int
  DRMax :: go_int
  SortBy :: string
  Limit :: go_int
  Offset :: go_int

section \<open>The string functions of the standard library that the filter calls\<close>

text \<open>
  \<open>strings.ToLower\<close> and \<open>strings.EqualFold\<close> work on Unicode text through the case
  tables of the standard library, which are not code of this repository: the two functions
  are parameters of the filter, and what is proved of the filter holds whatever they
  compute. \<open>strings.Contains\<close> is the substring test on bytes and is defined here.
\<close>

record strings_pkg =
  strings_ToLower :: "string \<Rightarrow> string"
  strings_EqualFold :: "string \<Rightarrow> string \<Rightarrow> bool"

fun strings_HasPrefix :: "string \<Rightarrow> string \<Rightarrow> bool" where
  "strings_HasPrefix s [] = True"
| "strings_HasPrefix [] (p # ps) = False"
| "strings_HasPrefix (c # cs) (p # ps) = (c = p \<and> strings_HasPrefix cs ps)"

fun strings_Contains :: "string \<Rightarrow> string \<Rightarrow> bool" where
  "strings_Contains [] substr = (substr = [])"
| "strings_Contains (c # cs) substr =
     (strings_HasPrefix (c # cs) substr \<or> strings_Contains cs substr)"

section \<open>FilterDirectories (internal/cache)\<close>

text \<open>
  The two nested loops of the category filter. Each returns the value \<open>hasCategory\<close> has
  when the loop is left, by \<open>break\<close> or by exhaustion.
\<close>

fun dirCat_loop :: "strings_pkg \<Rightarrow> string \<Rightarrow> string list \<Rightarrow> bool" where
  "dirCat_loop S cat [] = False"
| "dirCat_loop S cat (dirCat # rest) =
     (if strings_EqualFold S cat dirCat then True else dirCat_loop S cat rest)"

fun cat_loop :: "strings_pkg \<Rightarrow> string list \<Rightarrow> string list \<Rightarrow> bool" where
  "cat_loop S [] dirCats = False"
| "cat_loop S (cat # rest) dirCats =
     (if dirCat_loop S cat dirCats then True else cat_loop S rest dirCats)"

text \<open>The loop of the pricing filter (\<open>hasPrice\<close>) and of the link type filter (\<open>hasLinkType\<close>).\<close>

fun price_loop :: "strings_pkg \<Rightarrow> string list \<Rightarrow> string \<Rightarrow> bool" where
  "price_loop S [] dirPricing = False"
| "price_loop S (price # rest) dirPricing =
     (if strings_EqualFold S price dirPricing then True else price_loop S rest dirPricing)"

fun linkType_loop :: "strings_pkg \<Rightarrow> string list \<Rightarrow> string \<Rightarrow> bool" where
  "linkType_loop S [] dirLinkType = False"
| "linkType_loop S (lt # rest) dirLinkType =
     (if strings_EqualFold S lt dirLinkType then True else linkType_loop S rest dirLinkType)"

text \<open>
  One pass through the body of the main loop: \<open>False\<close> when a \<open>continue\<close> is taken,
  \<open>True\<close> when the body reaches \<open>filtered = append(filtered, dir)\<close>.
\<close>

definition keeps :: "strings_pkg \<Rightarrow> FilterOptions \<Rightarrow> Directory \<Rightarrow> bool" where
  "keeps S options dir =
     (if \<not> IsActive dir then False
      else if Query options \<noteq> [] \<and>
              \<not> strings_Contains (strings_ToLower S (Name dir))
                  (strings_ToLower S (Query options)) \<and>
              \<not> strings_Contains (strings_ToLower S (Description dir))
                  (strings_ToLower S (Query options))
        then False
      else if length (Categories_opt options) > 0 \<and>
              \<not> cat_loop S (Categories_opt options) (Categories dir)
        then False
      else if length (Pricing_opt options) > 0 \<and>
              \<not> price_loop S (Pricing_opt options) (Pricing dir)
        then False
      else if length (LinkType_opt options) > 0 \<and>
              \<not> linkType_loop S (LinkType_opt options) (LinkType dir)
        then False
      else if 0 < sint (DRMin options) \<and> 0 < sint (DomainRating dir) \<and>
              sint (DomainRating dir) < sint (DRMin options)
        then False
      else if 0 < sint (DRMax options) \<and> 0 < sint (DomainRating dir) \<and>
              sint (DomainRating dir) > sint (DRMax options)
        then False
      else True)"

fun filter_loop ::
  "strings_pkg \<Rightarrow> FilterOptions \<Rightarrow> Directory list \<Rightarrow> Directory list \<Rightarrow> Directory list" where
  "filter_loop S options [] filtered = filtered"
| "filter_loop S options (dir # rest) filtered =
     (if keeps S options dir then filter_loop S options rest (filtered @ [dir])
      else filter_loop S options rest filtered)"

text \<open>
  \<open>sortDirectories\<close> has an empty body: the slice it is given is left as it is, whatever
  the sort key.
\<close>

definition sortDirectories :: "Directory list \<Rightarrow> string \<Rightarrow> Directory list" where
  "sortDirectories directories sortBy = directories"

text \<open>
  The slice expression \<open>s[lo:hi]\<close> panics unless \<open>0 \<le> lo \<le> hi \<le> cap(s)\<close>. Where
  \<open>FilterDirectories\<close> slices, \<open>hi\<close> has been clamped to \<open>len(s)\<close>, which never exceeds the
  capacity, so the bound is written with the length.
\<close>

datatype panic = SliceBoundsOutOfRange

definition slice :: "'a list \<Rightarrow> int \<Rightarrow> int \<Rightarrow> panic + 'a list" where
  "slice s lo hi =
     (if 0 \<le> lo \<and> lo \<le> hi \<and> hi \<le> int (length s)
      then Inr (take (nat (hi - lo)) (drop (nat lo) s))
      else Inl SliceBoundsOutOfRange)"

text \<open>The pagination block; \<open>start + options.Limit\<close> is word addition and wraps around.\<close>

definition paginate :: "Directory list \<Rightarrow> go_int \<Rightarrow> go_int \<Rightarrow> panic + Directory list" where
  "paginate filtered limit offset =
     (if 0 < sint limit then
        (let start = offset;
             end0 = start + limit
         in if sint start \<ge> int (length filtered) then Inr []
            else (let end1 = (if sint end0 > int (length filtered)
                              then int (length filtered) else sint end0)
                  in slice filtered (sint start) end1))
      else Inr filtered)"

text \<open>A \<open>nil\<close> options pointer is \<open>None\<close>.\<close>

definition FilterDirectories ::
  "strings_pkg \<Rightarrow> Directory list \<Rightarrow> FilterOptions option \<Rightarrow> panic + Directory list" where
  "FilterDirectories S directories options =
     (case options of
        None \<Rightarrow> Inr directories
      | Some opts \<Rightarrow>
          (let filtered = filter_loop S opts directories [];
               filtered = sortDirectories filtered (SortBy opts)
           in paginate filtered (Limit opts) (Offset opts)))"

section \<open>The cache (internal/cache)\<close>

text \<open>
  An error value: a message, or a message wrapping another error
  (\<open>fmt.Errorf("...: %w", err)\<close>).
\<close>

datatype error = Err string | Wrap string error

text \<open>The fields of \<open>config.Config\<close> that the cache reads.\<close>

record Config =
  CacheDir :: string
  CacheTTL :: duration

text \<open>The \<open>apiClient\<close> field of \<open>Cache\<close> is part of the environment below.\<close>

record Cache =
  cfg :: Config
  cacheFile :: string
  metaFile :: string

record CacheMetadata =
  LastUpdated :: go_time
  Version :: string
  Count :: int

text \<open>
  What the cache calls and does not define itself: the JSON library (for a collection
  and for the metadata), the remote fetch \<open>apiClient.GetDirectories(ctx, nil)\<close>, the
  operating system's answers to directory creation, reads and writes, and the clock. All of
  them are parameters. One operation of the cache reads the clock as one instant.

  A write to a path succeeds (\<open>None\<close>), or fails before the file is opened
  (\<open>Some (err, None)\<close>), or fails after the file was truncated, leaving a part of the data
  (\<open>Some (err, Some part)\<close>).
\<close>

record env =
  json_MarshalIndent :: "Directory list \<Rightarrow> error + string"
  json_Unmarshal :: "string \<Rightarrow> error + Directory list"
  json_MarshalIndent_meta :: "CacheMetadata \<Rightarrow> error + string"
  json_Unmarshal_meta :: "string \<Rightarrow> error + CacheMetadata"
  apiClient_GetDirectories :: "error + Directory list"
  os_MkdirAll :: "string \<Rightarrow> error option"
  read_fault :: "string \<Rightarrow> error option"
  write_fault :: "string \<Rightarrow> (error \<times> string option) option"
  time_Now :: go_time

text \<open>
  The persisted state: the content of each file that exists, and the paths of the writes
  that succeeded so far, oldest first.
\<close>

record disk =
  files :: "string \<rightharpoonup> string"
  written :: "string list"

definition os_ReadFile :: "env \<Rightarrow> disk \<Rightarrow> string \<Rightarrow> error + string" where
  "os_ReadFile e d path =
     (case read_fault e path of
        Some err \<Rightarrow> Inl err
      | None \<Rightarrow>
          (case files d path of
             None \<Rightarrow> Inl (Err (''open '' @ path @ '': no such file or directory''))
           | Some data \<Rightarrow> Inr data))"

definition os_WriteFile :: "env \<Rightarrow> disk \<Rightarrow> string \<Rightarrow> string \<Rightarrow> error option \<times> disk" where
  "os_WriteFile e d path data =
     (case write_fault e path of
        None \<Rightarrow> (None, d\<lparr>files := (files d)(path \<mapsto> data), written := written d @ [path]\<rparr>)
      | Some (err, None) \<Rightarrow> (Some err, d)
      | Some (err, Some part) \<Rightarrow> (Some err, d\<lparr>files := (files d)(path \<mapsto> part)\<rparr>))"

text \<open>\<open>os.IsNotExist(err)\<close> for the error of \<open>os.Stat(path)\<close>.\<close>

definition stat_IsNotExist :: "disk \<Rightarrow> string \<Rightarrow> bool" where
  "stat_IsNotExist d path = (files d path = None)"

text \<open>
  \<open>t.Sub(u)\<close> is the difference of two instants, kept inside the range of a 64-bit
  duration: beyond it the largest, or the smallest, duration is returned.
\<close>

definition maxDuration :: duration where
  "maxDuration = 2 ^ 63 - 1"

definition minDuration :: duration where
  "minDuration = - (2 ^ 63)"

definition time_Sub :: "go_time \<Rightarrow> go_time \<Rightarrow> duration" where
  "time_Sub t u =
     (let d = t - u
      in if d > maxDuration then maxDuration
         else if d < minDuration then minDuration
         else d)"

definition time_Since :: "env \<Rightarrow> go_time \<Rightarrow> duration" where
  "time_Since e t = time_Sub (time_Now e) t"

text \<open>
  \<open>filepath.Join\<close> of a directory and a file name, with the separator \<open>/\<close>: the elements
  from the first non-empty one on are joined and the result is cleaned. \<open>filepath.Clean\<close>
  walks through the elements of the path: an empty element and \<open>.\<close> are dropped, \<open>..\<close>
  removes the element before it, is dropped at the root, and is kept at the start of a
  relative path; an empty result is \<open>.\<close>.
\<close>

fun split_sep :: "string \<Rightarrow> string list" where
  "split_sep [] = [[]]"
| "split_sep (c # cs) =
     (if c = CHR ''/'' then [] # split_sep cs
      else (case split_sep cs of [] \<Rightarrow> [[c]] | y # ys \<Rightarrow> (c # y) # ys))"

fun join_sep :: "string list \<Rightarrow> string" where
  "join_sep [] = []"
| "join_sep [x] = x"
| "join_sep (x # y # zs) = x @ ''/'' @ join_sep (y # zs)"

definition clean_step :: "bool \<Rightarrow> string list \<Rightarrow> string \<Rightarrow> string list" where
  "clean_step rooted stack part =
     (if part = [] \<or> part = ''.'' then stack
      else if part = ''..'' then
        (if stack \<noteq> [] \<and> last stack \<noteq> ''..'' then butlast stack
         else if rooted then stack
         else stack @ [''..''])
      else stack @ [part])"

definition filepath_Clean :: "string \<Rightarrow> string" where
  "filepath_Clean path =
     (if path = [] then ''.''
      else (let rooted = (hd path = CHR ''/'');
                stack = foldl (clean_step rooted) [] (split_sep path);
                out = (if rooted then ''/'' else []) @ join_sep stack
            in if out = [] then ''.'' else out))"

definition filepath_Join :: "string \<Rightarrow> string \<Rightarrow> string" where
  "filepath_Join dir name =
     (if dir \<noteq> [] then filepath_Clean (dir @ ''/'' @ name)
      else if name \<noteq> [] then filepath_Clean name
      else [])"

definition NewCache :: "Config \<Rightarrow> Cache" where
  "NewCache config =
     \<lparr>cfg = config,
      cacheFile = filepath_Join (CacheDir config) ''directories.json'',
      metaFile = filepath_Join (CacheDir config) ''metadata.json''\<rparr>"

definition loadMetadata :: "Cache \<Rightarrow> env \<Rightarrow> disk \<Rightarrow> error + CacheMetadata" where
  "loadMetadata c e d =
     (case os_ReadFile e d (metaFile c) of
        Inl err \<Rightarrow> Inl (Wrap ''failed to read metadata file'' err)
      | Inr data \<Rightarrow>
          (case json_Unmarshal_meta e data of
             Inl err \<Rightarrow> Inl (Wrap ''failed to unmarshal metadata'' err)
           | Inr meta \<Rightarrow> Inr meta))"

definition saveMetadata :: "Cache \<Rightarrow> env \<Rightarrow> disk \<Rightarrow> CacheMetadata \<Rightarrow> error option \<times> disk" where
  "saveMetadata c e d meta =
     (case json_MarshalIndent_meta e meta of
        Inl err \<Rightarrow> (Some (Wrap ''failed to marshal metadata'' err), d)
      | Inr data \<Rightarrow>
          (case os_WriteFile e d (metaFile c) data of
             (Some err, d') \<Rightarrow> (Some (Wrap ''failed to write metadata file'' err), d')
           | (None, d') \<Rightarrow> (None, d')))"

definition isCacheValid :: "Cache \<Rightarrow> env \<Rightarrow> disk \<Rightarrow> bool" where
  "isCacheValid c e d =
     (case loadMetadata c e d of
        Inl err \<Rightarrow> False
      | Inr meta \<Rightarrow>
          (if time_Since e (LastUpdated meta) > CacheTTL (cfg c) then False
           else if stat_IsNotExist d (cacheFile c) then False
           else True))"

definition loadFromCache :: "Cache \<Rightarrow> env \<Rightarrow> disk \<Rightarrow> error + Directory list" where
  "loadFromCache c e d =
     (case os_ReadFile e d (cacheFile c) of
        Inl err \<Rightarrow> Inl (Wrap ''failed to read cache file'' err)
      | Inr data \<Rightarrow>
          (case json_Unmarshal e data of
             Inl err \<Rightarrow> Inl (Wrap ''failed to unmarshal cache'' err)
           | Inr directories \<Rightarrow> Inr directories))"

definition saveToCache :: "Cache \<Rightarrow> env \<Rightarrow> disk \<Rightarrow> Directory list \<Rightarrow> error option \<times> disk" where
  "saveToCache c e d directories =
     (case os_MkdirAll e (CacheDir (cfg c)) of
        Some err \<Rightarrow> (Some (Wrap ''failed to create cache directory'' err), d)
      | None \<Rightarrow>
          (case json_MarshalIndent e directories of
             Inl err \<Rightarrow> (Some (Wrap ''failed to marshal directories'' err), d)
           | Inr data \<Rightarrow>
               (case os_WriteFile e d (cacheFile c) data of
                  (Some err, d1) \<Rightarrow> (Some (Wrap ''failed to write cache file'' err), d1)
                | (None, d1) \<Rightarrow>
                    (let meta = \<lparr>LastUpdated = time_Now e, Version = ''1.0'',
                                 Count = int (length directories)\<rparr>
                     in case saveMetadata c e d1 meta of
                          (Some err, d2) \<Rightarrow> (Some (Wrap ''failed to save metadata'' err), d2)
                        | (None, d2) \<Rightarrow> (None, d2)))))"

text \<open>
  The second half of \<open>GetDirectories\<close>, from "Fetch from API" on: the remote fetch, the
  stale fallback when it fails, the save (whose failure is only logged) when it succeeds.
\<close>

definition fetchFromAPI :: "Cache \<Rightarrow> env \<Rightarrow> disk \<Rightarrow> (error + Directory list) \<times> disk" where
  "fetchFromAPI c e d =
     (case apiClient_GetDirectories e of
        Inl err \<Rightarrow>
          (case loadFromCache c e d of
             Inr cachedDirs \<Rightarrow> (Inr cachedDirs, d)
           | Inl cacheErr \<Rightarrow> (Inl (Wrap ''failed to fetch directories'' err), d))
      | Inr directories \<Rightarrow>
          (case saveToCache c e d directories of
             (_, d') \<Rightarrow> (Inr directories, d')))"

definition GetDirectories ::
  "Cache \<Rightarrow> env \<Rightarrow> disk \<Rightarrow> bool \<Rightarrow> (error + Directory list) \<times> disk" where
  "GetDirectories c e d forceRefresh =
     (if \<not> forceRefresh \<and> isCacheValid c e d then
        (case loadFromCache c e d of
           Inr directories \<Rightarrow> (Inr directories, d)
         | Inl err \<Rightarrow> fetchFromAPI c e d)
      else fetchFromAPI c e d)"

definition Sync :: "Cache \<Rightarrow> env \<Rightarrow> disk \<Rightarrow> error option \<times> disk" where
  "Sync c e d =
     (case apiClient_GetDirectories e of
        Inl err \<Rightarrow> (Some (Wrap ''failed to fetch directories'' err), d)
      | Inr directories \<Rightarrow>
          (case saveToCache c e d directories of
             (Some err, d') \<Rightarrow> (Some (Wrap ''failed to save to cache'' err), d')
           | (None, d') \<Rightarrow> (None, d')))"

section \<open>The specification's words, as definitions\<close>

text \<open>
  The predicates of the filter engine as the specification words them: each is absent
  (true) when its field is not configured, and a set-valued field asks for one match
  among its values.
\<close>

definition text_pred :: "strings_pkg \<Rightarrow> FilterOptions \<Rightarrow> Directory \<Rightarrow> bool" where
  "text_pred S opts d =
     (Query opts = [] \<or>
      strings_Contains (strings_ToLower S (Name d)) (strings_ToLower S (Query opts)) \<or>
      strings_Contains (strings_ToLower S (Description d)) (strings_ToLower S (Query opts)))"

definition category_pred :: "strings_pkg \<Rightarrow> FilterOptions \<Rightarrow> Directory \<Rightarrow> bool" where
  "category_pred S opts d =
     (Categories_opt opts = [] \<or>
      (\<exists>dc \<in> set (Categories d). \<exists>c \<in> set (Categories_opt opts). strings_EqualFold S c dc))"

definition pricing_pred :: "strings_pkg \<Rightarrow> FilterOptions \<Rightarrow> Directory \<Rightarrow> bool" where
  "pricing_pred S opts d =
     (Pricing_opt opts = [] \<or>
      (\<exists>p \<in> set (Pricing_opt opts). strings_EqualFold S p (Pricing d)))"

definition linkType_pred :: "strings_pkg \<Rightarrow> FilterOptions \<Rightarrow> Directory \<Rightarrow> bool" where
  "linkType_pred S opts d =
     (LinkType_opt opts = [] \<or>
      (\<exists>l \<in> set (LinkType_opt opts). strings_EqualFold S l (LinkType d)))"

text \<open>
  The score bounds in the specification's words: a bound is absent when it is zero, a score
  is unknown when it is zero.
\<close>

definition score_min_spec :: "FilterOptions \<Rightarrow> Directory \<Rightarrow> bool" where
  "score_min_spec opts d =
     (DRMin opts \<noteq> 0 \<and> DomainRating d \<noteq> 0 \<longrightarrow> sint (DRMin opts) \<le> sint (DomainRating d))"

definition score_max_spec :: "FilterOptions \<Rightarrow> Directory \<Rightarrow> bool" where
  "score_max_spec opts d =
     (DRMax opts \<noteq> 0 \<and> DomainRating d \<noteq> 0 \<longrightarrow> sint (DomainRating d) \<le> sint (DRMax opts))"

definition matches_spec :: "strings_pkg \<Rightarrow> FilterOptions \<Rightarrow> Directory \<Rightarrow> bool" where
  "matches_spec S opts d =
     (IsActive d \<and> text_pred S opts d \<and> category_pred S opts d \<and> pricing_pred S opts d \<and>
      linkType_pred S opts d \<and> score_min_spec opts d \<and> score_max_spec opts d)"

text \<open>
  The same conjunction with a score bound counted as configured when it is positive and a
  score as known when it is positive.
\<close>

definition score_min_positive :: "FilterOptions \<Rightarrow> Directory \<Rightarrow> bool" where
  "score_min_positive opts d =
     (0 < sint (DRMin opts) \<and> 0 < sint (DomainRating d) \<longrightarrow>
      sint (DRMin opts) \<le> sint (DomainRating d))"

definition score_max_positive :: "FilterOptions \<Rightarrow> Directory \<Rightarrow> bool" where
  "score_max_positive opts d =
     (0 < sint (DRMax opts) \<and> 0 < sint (DomainRating d) \<longrightarrow>
      sint (DomainRating d) \<le> sint (DRMax opts))"

definition matches_positive :: "strings_pkg \<Rightarrow> FilterOptions \<Rightarrow> Directory \<Rightarrow> bool" where
  "matches_positive S opts d =
     (IsActive d \<and> text_pred S opts d \<and> category_pred S opts d \<and> pricing_pred S opts d \<and>
      linkType_pred S opts d \<and> score_min_positive opts d \<and> score_max_positive opts d)"

text \<open>The slice \<open>[lo, hi)\<close> of a sequence, and \<open>Paginate(sorted, limit, offset)\<close>.\<close>

definition sublist_spec :: "'a list \<Rightarrow> nat \<Rightarrow> nat \<Rightarrow> 'a list" where
  "sublist_spec xs lo hi = take (hi - lo) (drop lo xs)"

definition paginate_spec :: "Directory list \<Rightarrow> int \<Rightarrow> int \<Rightarrow> Directory list" where
  "paginate_spec ordered limit offset =
     (if limit \<le> 0 then ordered
      else if offset \<ge> int (length ordered) then []
      else sublist_spec ordered (nat offset) (nat (min (offset + limit) (int (length ordered)))))"

section \<open>Concrete records, options and environments\<close>

text \<open>
  The two string functions on ASCII text, where lower-casing and case folding are the shift
  of the letters \<open>A\<close> to \<open>Z\<close>. Every string of the concrete inputs below is ASCII.
\<close>

definition lower_byte :: "char \<Rightarrow> char" where
  "lower_byte c =
     (let n = (of_char c :: nat) in if 65 \<le> n \<and> n \<le> 90 then char_of (n + 32) else c)"

definition ascii_strings :: strings_pkg where
  "ascii_strings =
     \<lparr>strings_ToLower = map lower_byte,
      strings_EqualFold = (\<lambda>s t. map lower_byte s = map lower_byte t)\<rparr>"

definition dir0 :: Directory where
  "dir0 = \<lparr>ID = [], Slug = [], Name = [], URL = [], Description = [], Categories = [],
           Pricing = [], LinkType = [], DomainRating = 0, OrganicTraffic = 0,
           OrganicKeywords = 0, HelpfulCount = 0, ViewCount = 0, SubmissionURL = [],
           IsAffiliate = False, AffiliateURL = [], IsActive = True, CreatedAt = 0,
           UpdatedAt = 0\<rparr>"

definition opts0 :: FilterOptions where
  "opts0 = \<lparr>Query = [], Categories_opt = [], Pricing_opt = [], LinkType_opt = [], DRMin = 0,
            DRMax = 0, SortBy = [], Limit = 0, Offset = 0\<rparr>"

definition five :: "Directory list" where
  "five = [dir0\<lparr>Name := ''a''\<rparr>, dir0\<lparr>Name := ''b''\<rparr>, dir0\<lparr>Name := ''c''\<rparr>,
           dir0\<lparr>Name := ''d''\<rparr>, dir0\<lparr>Name := ''e''\<rparr>]"

definition rated :: "Directory list" where
  "rated = [dir0, dir0\<lparr>DomainRating := 40\<rparr>, dir0\<lparr>DomainRating := 60\<rparr>]"

definition tools :: "Directory list" where
  "tools =
     [dir0\<lparr>Name := ''one'', Categories := [''AI Tools''], Pricing := ''Free''\<rparr>,
      dir0\<lparr>Name := ''two'', Categories := [''Marketing'', ''saas''], Pricing := ''free''\<rparr>,
      dir0\<lparr>Name := ''three'', Categories := [''AI Tools''], Pricing := ''paid''\<rparr>,
      dir0\<lparr>Name := ''four'', Categories := [''Blogs''], Pricing := ''free''\<rparr>,
      dir0\<lparr>Name := ''five'', Categories := [''SaaS''], Pricing := ''free'', IsActive := False\<rparr>]"

definition tools_opts :: FilterOptions where
  "tools_opts = opts0\<lparr>Categories_opt := [''AI Tools'', ''SaaS''], Pricing_opt := [''free'']\<rparr>"

definition ex_dirs :: "Directory list" where
  "ex_dirs = [dir0\<lparr>Name := ''Alpha''\<rparr>, dir0\<lparr>Name := ''Beta''\<rparr>]"

text \<open>
  An environment whose remote fetch always fails, whose JSON library knows one collection
  and one metadata document, and whose operating system never refuses.
\<close>

definition env0 :: env where
  "env0 =
     \<lparr>json_MarshalIndent =
        (\<lambda>ds. if ds = ex_dirs then Inr ''[Alpha,Beta]'' else Inl (Err ''unsupported value'')),
      json_Unmarshal =
        (\<lambda>s. if s = ''[Alpha,Beta]'' then Inr ex_dirs else Inl (Err ''syntax error'')),
      json_MarshalIndent_meta = (\<lambda>m. Inr ''meta''),
      json_Unmarshal_meta =
        (\<lambda>s. if s = ''meta''
              then Inr \<lparr>LastUpdated = 1000, Version = ''1.0'', Count = 2\<rparr>
              else Inl (Err ''syntax error'')),
      apiClient_GetDirectories = Inl (Err ''connection refused''),
      os_MkdirAll = (\<lambda>p. None),
      read_fault = (\<lambda>p. None),
      write_fault = (\<lambda>p. None),
      time_Now = 1500\<rparr>"




definition cache0 :: Cache where
  "cache0 = NewCache \<lparr>CacheDir = ''cache'', CacheTTL = 500\<rparr>"

definition disk0 :: disk where
  "disk0 = \<lparr>files = [''cache/directories.json'' \<mapsto> ''[Alpha,Beta]'',
                     ''cache/metadata.json'' \<mapsto> ''meta''],
            written = []\<rparr>"

definition disk_meta_only :: disk where
  "disk_meta_only = \<lparr>files = [''cache/metadata.json'' \<mapsto> ''meta''], written = []\<rparr>"

definition disk_empty :: disk where
  "disk_empty = \<lparr>files = Map.empty, written = []\<rparr>"

section \<open>The filter loop\<close>

lemma dirCat_loop_iff: "dirCat_loop S cat dcs = (\<exists>dc\<in>set dcs. strings_EqualFold S cat dc)"
  by (induction dcs) auto

lemma cat_loop_iff:
  "cat_loop S cats dcs = (\<exists>c\<in>set cats. \<exists>dc\<in>set dcs. strings_EqualFold S c dc)"
  by (induction cats) (auto simp: dirCat_loop_iff)

lemma price_loop_iff: "price_loop S ps p = (\<exists>x\<in>set ps. strings_EqualFold S x p)"
  by (induction ps) auto

lemma linkType_loop_iff: "linkType_loop S ls l = (\<exists>x\<in>set ls. strings_EqualFold S x l)"
  by (induction ls) auto

lemma filter_loop_eq: "filter_loop S opts ds acc = acc @ filter (keeps S opts) ds"
  by (induction ds arbitrary: acc) auto

lemma keeps_matches_positive: "keeps S opts d = matches_positive S opts d"
  unfolding keeps_def matches_positive_def text_pred_def category_pred_def pricing_pred_def
    linkType_pred_def score_min_positive_def score_max_positive_def
    cat_loop_iff price_loop_iff linkType_loop_iff
  by auto

lemma filter_loop_positive:
  "filter_loop S opts ds [] = filter (matches_positive S opts) ds"
  by (simp add: filter_loop_eq keeps_matches_positive [abs_def])

lemma slice_subset: "slice s lo hi = Inr out \<Longrightarrow> set out \<subseteq> set s"
  by (auto simp: slice_def split: if_splits dest: in_set_takeD in_set_dropD)

lemma paginate_subset:
  "paginate filtered limit offset = Inr out \<Longrightarrow> set out \<subseteq> set filtered"
  unfolding paginate_def Let_def
  by (auto split: if_splits dest!: slice_subset)

lemma FilterDirectories_Some:
  "FilterDirectories S ds (Some opts) =
     paginate (filter_loop S opts ds []) (Limit opts) (Offset opts)"
  by (simp add: FilterDirectories_def sortDirectories_def)

lemma FilterDirectories_survivors:
  assumes "FilterDirectories S ds (Some opts) = Inr out"
  shows "set out \<subseteq> set (filter (keeps S opts) ds)"
proof -
  from assms have "paginate (filter (keeps S opts) ds) (Limit opts) (Offset opts) = Inr out"
    by (simp add: FilterDirectories_Some filter_loop_eq)
  then show ?thesis by (rule paginate_subset)
qed

section \<open>C1: the sort stage\<close>

text \<open>
  C1 asks the sort stage to order the filtered records by the sort key. The stage is empty:
  with the key \<open>alpha\<close>, two active records named \<open>b\<close> and \<open>a\<close> come back in the order
  they went in, \<open>b\<close> before \<open>a\<close>, which is not ascending by name.
\<close>

theorem sort_stage_leaves_order:
  "FilterDirectories S [dir0\<lparr>Name := ''b''\<rparr>, dir0\<lparr>Name := ''a''\<rparr>]
      (Some (opts0\<lparr>SortBy := ''alpha''\<rparr>)) =
     Inr [dir0\<lparr>Name := ''b''\<rparr>, dir0\<lparr>Name := ''a''\<rparr>]"
  by (simp add: FilterDirectories_Some filter_loop_eq keeps_def opts0_def dir0_def
      paginate_def)

section \<open>C3: the active flag\<close>

text \<open>
  C3, for an options pointer that is not \<open>nil\<close> (the zero-valued specification included):
  every record in the output of \<open>FilterDirectories\<close> has its active flag set.
\<close>

theorem filter_active:
  "FilterDirectories S ds (Some opts) = Inr out \<Longrightarrow> d \<in> set out \<Longrightarrow> IsActive d"
proof -
  assume a: "FilterDirectories S ds (Some opts) = Inr out" and b: "d \<in> set out"
  from a have "set out \<subseteq> set (filter (keeps S opts) ds)"
    by (rule FilterDirectories_survivors)
  with b have "keeps S opts d" by auto
  then show "IsActive d" by (simp add: keeps_def split: if_splits)
qed

text \<open>With the zero-valued specification, an inactive record is dropped and an active one kept.\<close>

theorem filter_active_witness:
  "FilterDirectories ascii_strings [dir0\<lparr>IsActive := False\<rparr>, dir0] (Some opts0) = Inr [dir0] \<and>
   dir0 \<in> set [dir0] \<and> IsActive dir0"
proof -
  have h: "FilterDirectories ascii_strings [dir0\<lparr>IsActive := False\<rparr>, dir0] (Some opts0) =
      Inr [dir0]"
    by (simp add: FilterDirectories_Some filter_loop_eq keeps_def opts0_def dir0_def
        paginate_def)
  from filter_active [OF h, of dir0] h show ?thesis by simp
qed

text \<open>
  With a \<open>nil\<close> options pointer the collection is returned as it is, inactive records
  included.
\<close>

theorem filter_nil_options_keeps_inactive:
  "FilterDirectories ascii_strings [dir0\<lparr>IsActive := False\<rparr>] None =
     Inr [dir0\<lparr>IsActive := False\<rparr>] \<and>
   \<not> IsActive (dir0\<lparr>IsActive := False\<rparr>)"
  by (simp add: FilterDirectories_def)

section \<open>C5: a conjunction of predicates, a disjunction within each field\<close>

text \<open>
  C5, with a score bound counted as configured when it is positive and a score as known
  when it is positive. With a \<open>nil\<close> options pointer nothing is configured and the
  collection is returned as it is. Otherwise a record survives \<open>FilterDirectories\<close> only if
  it is in the collection and satisfies the conjunction of the predicates (each a
  membership test over the values of its field, absent when the set is empty or the bound
  is zero); without pagination the output is exactly those records, in the order of the
  collection. For categories
  \<open>{"AI Tools", "SaaS"}\<close> and pricing \<open>{"free"}\<close>, nothing else configured, these are the
  active records with a category equal, case-insensitively, to "AI Tools" or to "SaaS" and
  a pricing equal, case-insensitively, to "free".
\<close>

theorem filter_conjunction:
  "FilterDirectories S ds None = Inr ds \<and>
   (FilterDirectories S ds (Some opts) = Inr out \<longrightarrow>
      set out \<subseteq> {d \<in> set ds. matches_positive S opts d}) \<and>
   (sint (Limit opts) \<le> 0 \<longrightarrow>
      FilterDirectories S ds (Some opts) = Inr (filter (matches_positive S opts) ds)) \<and>
   (Query opts = [] \<and> Categories_opt opts = [''AI Tools'', ''SaaS''] \<and>
    Pricing_opt opts = [''free''] \<and> LinkType_opt opts = [] \<and> DRMin opts = 0 \<and>
    DRMax opts = 0 \<and> sint (Limit opts) \<le> 0 \<longrightarrow>
      FilterDirectories S ds (Some opts) =
        Inr (filter (\<lambda>d. IsActive d \<and>
                      ((\<exists>c \<in> set (Categories d). strings_EqualFold S ''AI Tools'' c) \<or>
                       (\<exists>c \<in> set (Categories d). strings_EqualFold S ''SaaS'' c)) \<and>
                      strings_EqualFold S ''free'' (Pricing d)) ds))"
proof (intro conjI impI)
  show "FilterDirectories S ds None = Inr ds"
    by (simp add: FilterDirectories_def)
next
  assume "FilterDirectories S ds (Some opts) = Inr out"
  then have "set out \<subseteq> set (filter (keeps S opts) ds)"
    by (rule FilterDirectories_survivors)
  then show "set out \<subseteq> {d \<in> set ds. matches_positive S opts d}"
    by (auto simp: keeps_matches_positive)
next
  assume "sint (Limit opts) \<le> 0"
  then show "FilterDirectories S ds (Some opts) = Inr (filter (matches_positive S opts) ds)"
    by (simp add: FilterDirectories_Some filter_loop_positive paginate_def)
next
  assume a: "Query opts = [] \<and> Categories_opt opts = [''AI Tools'', ''SaaS''] \<and>
    Pricing_opt opts = [''free''] \<and> LinkType_opt opts = [] \<and> DRMin opts = 0 \<and>
    DRMax opts = 0 \<and> sint (Limit opts) \<le> 0"
  then have "matches_positive S opts =
      (\<lambda>d. IsActive d \<and>
          ((\<exists>c \<in> set (Categories d). strings_EqualFold S ''AI Tools'' c) \<or>
           (\<exists>c \<in> set (Categories d). strings_EqualFold S ''SaaS'' c)) \<and>
          strings_EqualFold S ''free'' (Pricing d))"
    by (auto simp: fun_eq_iff matches_positive_def text_pred_def category_pred_def
        pricing_pred_def linkType_pred_def score_min_positive_def score_max_positive_def)
  with a show "FilterDirectories S ds (Some opts) =
        Inr (filter (\<lambda>d. IsActive d \<and>
                      ((\<exists>c \<in> set (Categories d). strings_EqualFold S ''AI Tools'' c) \<or>
                       (\<exists>c \<in> set (Categories d). strings_EqualFold S ''SaaS'' c)) \<and>
                      strings_EqualFold S ''free'' (Pricing d)) ds)"
    by (simp add: FilterDirectories_Some filter_loop_positive paginate_def)
qed

lemma tools_matching:
  "filter (matches_positive ascii_strings tools_opts) tools =
     [dir0\<lparr>Name := ''one'', Categories := [''AI Tools''], Pricing := ''Free''\<rparr>,
      dir0\<lparr>Name := ''two'', Categories := [''Marketing'', ''saas''], Pricing := ''free''\<rparr>]"
  by code_simp

text \<open>
  Five records, of which two are active, in one of the two categories and free; the other
  three fail the pricing, the category and the active flag.
\<close>

theorem filter_conjunction_witness:
  "sint (Limit tools_opts) \<le> 0 \<and>
   FilterDirectories ascii_strings tools (Some tools_opts) =
     Inr [dir0\<lparr>Name := ''one'', Categories := [''AI Tools''], Pricing := ''Free''\<rparr>,
          dir0\<lparr>Name := ''two'', Categories := [''Marketing'', ''saas''], Pricing := ''free''\<rparr>]"
proof -
  have l: "sint (Limit tools_opts) \<le> 0"
    by (simp add: tools_opts_def opts0_def)
  from filter_conjunction [of ascii_strings tools tools_opts "[]"] l
  have "FilterDirectories ascii_strings tools (Some tools_opts) =
      Inr (filter (matches_positive ascii_strings tools_opts) tools)"
    by blast
  with l show ?thesis by (simp only: tools_matching simp_thms)
qed

text \<open>
  In the specification's words a maximum of -1 is a configured bound and 40 a known score,
  so the conjunction asks for 40 \<open>\<le>\<close> -1; the record with score 40 survives all the same,
  because the source applies a bound only when it is positive.
\<close>

theorem negative_maximum_is_ignored:
  "FilterDirectories ascii_strings [dir0\<lparr>DomainRating := 40\<rparr>] (Some (opts0\<lparr>DRMax := - 1\<rparr>)) =
     Inr [dir0\<lparr>DomainRating := 40\<rparr>] \<and>
   \<not> matches_spec ascii_strings (opts0\<lparr>DRMax := - 1\<rparr>) (dir0\<lparr>DomainRating := 40\<rparr>)"
  by (simp add: FilterDirectories_Some filter_loop_eq keeps_def opts0_def dir0_def
      paginate_def matches_spec_def score_max_spec_def)

section \<open>Pagination within the range of the integers\<close>

lemma sint_add_no_wrap:
  fixes a b :: go_int
  assumes "0 \<le> sint a" "0 < sint b" "sint a + sint b < 2 ^ 63"
  shows "sint (a + b) = sint a + sint b"
proof -
  have "sint (a + b) = signed_take_bit 63 (sint a + sint b)"
    by (simp add: sint_word_add)
  also have "\<dots> = sint a + sint b"
    using assms by (intro signed_take_bit_int_eq_self) auto
  finally show ?thesis .
qed

lemma paginate_eq_spec:
  assumes "0 \<le> sint offset" "sint offset + sint limit < 2 ^ 63"
  shows "paginate filtered limit offset =
           Inr (paginate_spec filtered (sint limit) (sint offset))"
proof (cases "0 < sint limit")
  case False
  then show ?thesis by (simp add: paginate_def paginate_spec_def)
next
  case pos: True
  show ?thesis
  proof (cases "sint offset \<ge> int (length filtered)")
    case True
    with pos show ?thesis by (simp add: paginate_def paginate_spec_def)
  next
    case False
    have s: "sint (offset + limit) = sint offset + sint limit"
      using assms pos by (intro sint_add_no_wrap) auto
    from False pos assms show ?thesis
      by (auto simp: paginate_def paginate_spec_def Let_def s slice_def sublist_spec_def
          min_def nat_diff_distrib)
  qed
qed

text \<open>
  Where the code and \<open>Paginate\<close> agree: a limit that is not positive; an offset at or past
  the length; and every offset that is not negative with offset + limit below \<open>2 ^ 63\<close>.
\<close>

lemma paginate_in_range:
  "(sint (Limit opts) \<le> 0 \<longrightarrow>
      FilterDirectories S ds (Some opts) = Inr (filter_loop S opts ds [])) \<and>
   (0 < sint (Limit opts) \<and> sint (Offset opts) \<ge> int (length (filter_loop S opts ds [])) \<longrightarrow>
      FilterDirectories S ds (Some opts) = Inr []) \<and>
   (0 \<le> sint (Offset opts) \<and> sint (Offset opts) + sint (Limit opts) < 2 ^ 63 \<longrightarrow>
      FilterDirectories S ds (Some opts) =
        Inr (paginate_spec (filter_loop S opts ds []) (sint (Limit opts)) (sint (Offset opts))))"
proof (intro conjI impI)
  assume "sint (Limit opts) \<le> 0"
  then show "FilterDirectories S ds (Some opts) = Inr (filter_loop S opts ds [])"
    by (simp add: FilterDirectories_Some paginate_def)
next
  assume "0 < sint (Limit opts) \<and>
    sint (Offset opts) \<ge> int (length (filter_loop S opts ds []))"
  then show "FilterDirectories S ds (Some opts) = Inr []"
    by (simp add: FilterDirectories_Some paginate_def)
next
  assume "0 \<le> sint (Offset opts) \<and> sint (Offset opts) + sint (Limit opts) < 2 ^ 63"
  then show "FilterDirectories S ds (Some opts) =
        Inr (paginate_spec (filter_loop S opts ds []) (sint (Limit opts)) (sint (Offset opts)))"
    by (simp add: FilterDirectories_Some paginate_eq_spec)
qed

lemma five_survive: "filter_loop S (opts0\<lparr>Limit := l, Offset := k\<rparr>) five [] = five"
  by (simp add: filter_loop_eq five_def keeps_def opts0_def dir0_def)

text \<open>
  Five surviving records: offset 5 with limit 10 gives nothing, offset 3 with limit 10 the
  last two, and limit 0 all five.
\<close>

lemma paginate_five:
  "FilterDirectories S five (Some (opts0\<lparr>Limit := 10, Offset := 5\<rparr>)) = Inr [] \<and>
   FilterDirectories S five (Some (opts0\<lparr>Limit := 10, Offset := 3\<rparr>)) =
     Inr [dir0\<lparr>Name := ''d''\<rparr>, dir0\<lparr>Name := ''e''\<rparr>] \<and>
   FilterDirectories S five (Some (opts0\<lparr>Limit := 0, Offset := 3\<rparr>)) = Inr five"
  using paginate_in_range [of "opts0\<lparr>Limit := 10, Offset := 5\<rparr>" S five]
    paginate_in_range [of "opts0\<lparr>Limit := 10, Offset := 3\<rparr>" S five]
    paginate_in_range [of "opts0\<lparr>Limit := 0, Offset := 3\<rparr>" S five]
  unfolding five_survive
  by (simp add: paginate_spec_def sublist_spec_def five_def)

section \<open>C6: pagination\<close>

text \<open>
  C6 gives the result of pagination as the slice \<open>[offset, min(offset + limit, length))\<close>
  whenever the limit is positive and the offset below the length. For five surviving
  records, offset 3 and the largest limit, that slice is the last two records; the code
  panics, because \<open>start + options.Limit\<close> wraps around and the upper bound is not clamped.
  It panics as well for limit 10 and offset -1, an offset below the length that no guard
  catches.
\<close>

theorem pagination_formula_diverges:
  "paginate_spec (filter_loop S (opts0\<lparr>Limit := 9223372036854775807, Offset := 3\<rparr>) five [])
      (sint (Limit (opts0\<lparr>Limit := 9223372036854775807, Offset := 3\<rparr>)))
      (sint (Offset (opts0\<lparr>Limit := 9223372036854775807, Offset := 3\<rparr>))) =
     [dir0\<lparr>Name := ''d''\<rparr>, dir0\<lparr>Name := ''e''\<rparr>] \<and>
   FilterDirectories S five (Some (opts0\<lparr>Limit := 9223372036854775807, Offset := 3\<rparr>)) =
     Inl SliceBoundsOutOfRange \<and>
   FilterDirectories S five (Some (opts0\<lparr>Limit := 10, Offset := - 1\<rparr>)) =
     Inl SliceBoundsOutOfRange"
  unfolding FilterDirectories_Some five_survive
  by (simp add: paginate_spec_def sublist_spec_def paginate_def slice_def five_def)

section \<open>C10: the bounds of the slice\<close>

text \<open>
  C10 asks the pagination step to stay in bounds whenever the offset is not negative. With
  two surviving records, offset 1 and the largest limit, \<open>start + options.Limit\<close> wraps
  around to the smallest integer, the upper bound is not clamped, and the slice expression
  panics.
\<close>

theorem pagination_wraparound_panics:
  "0 \<le> sint (Offset (opts0\<lparr>Limit := 9223372036854775807, Offset := 1\<rparr>)) \<and>
   FilterDirectories S [dir0, dir0]
      (Some (opts0\<lparr>Limit := 9223372036854775807, Offset := 1\<rparr>)) =
     Inl SliceBoundsOutOfRange"
  by (simp add: FilterDirectories_Some filter_loop_eq keeps_def opts0_def dir0_def
      paginate_def slice_def)

section \<open>C7: the score bounds\<close>

text \<open>
  C7, with "known" read as positive: a record whose score is zero (or negative) is in the
  filtered sequence under any pair of score bounds exactly when it is there under the bounds
  of the specification, so no bound excludes it; and a record in the output whose score is
  positive reaches every positive minimum and stays within every positive maximum.
\<close>

theorem score_bounds:
  "(sint (DomainRating d) \<le> 0 \<longrightarrow>
      (d \<in> set (filter_loop S (opts\<lparr>DRMin := lo, DRMax := hi\<rparr>) ds []) \<longleftrightarrow>
       d \<in> set (filter_loop S opts ds []))) \<and>
   (FilterDirectories S ds (Some opts) = Inr out \<and> d \<in> set out \<and> 0 < sint (DomainRating d) \<longrightarrow>
      (0 < sint (DRMin opts) \<longrightarrow> sint (DRMin opts) \<le> sint (DomainRating d)) \<and>
      (0 < sint (DRMax opts) \<longrightarrow> sint (DomainRating d) \<le> sint (DRMax opts)))"
proof (intro conjI impI)
  assume "sint (DomainRating d) \<le> 0"
  then have "keeps S (opts\<lparr>DRMin := lo, DRMax := hi\<rparr>) d = keeps S opts d"
    by (simp add: keeps_def)
  then show "d \<in> set (filter_loop S (opts\<lparr>DRMin := lo, DRMax := hi\<rparr>) ds []) \<longleftrightarrow>
       d \<in> set (filter_loop S opts ds [])"
    by (simp add: filter_loop_eq)
next
  assume a: "FilterDirectories S ds (Some opts) = Inr out \<and> d \<in> set out \<and>
    0 < sint (DomainRating d)"
  then have "set out \<subseteq> set (filter (keeps S opts) ds)"
    by (intro FilterDirectories_survivors) simp
  with a have k: "keeps S opts d" by auto
  {
    assume "0 < sint (DRMin opts)"
    with a k show "sint (DRMin opts) \<le> sint (DomainRating d)"
      by (simp add: keeps_def split: if_splits)
  next
    assume "0 < sint (DRMax opts)"
    with a k show "sint (DomainRating d) \<le> sint (DRMax opts)"
      by (simp add: keeps_def split: if_splits)
  }
qed

text \<open>
  Scores 0, 40 and 60 under a minimum of 50: the record with score 0 stays, 40 goes, 60
  stays.
\<close>

theorem score_bounds_witness:
  "sint (DomainRating dir0) \<le> 0 \<and>
   (dir0 \<in> set (filter_loop ascii_strings (opts0\<lparr>DRMin := 50, DRMax := 0\<rparr>) rated []) \<longleftrightarrow>
    dir0 \<in> set (filter_loop ascii_strings opts0 rated [])) \<and>
   FilterDirectories ascii_strings rated (Some (opts0\<lparr>DRMin := 50\<rparr>)) =
     Inr [dir0, dir0\<lparr>DomainRating := 60\<rparr>] \<and>
   sint (DRMin (opts0\<lparr>DRMin := 50\<rparr>)) \<le> sint (DomainRating (dir0\<lparr>DomainRating := 60\<rparr>))"
proof -
  have h: "FilterDirectories ascii_strings rated (Some (opts0\<lparr>DRMin := 50\<rparr>)) =
      Inr [dir0, dir0\<lparr>DomainRating := 60\<rparr>]"
    by (simp add: FilterDirectories_Some filter_loop_eq keeps_def opts0_def dir0_def
        paginate_def rated_def)
  have z: "sint (DomainRating dir0) \<le> 0" by (simp add: dir0_def)
  have p: "0 < sint (DomainRating (dir0\<lparr>DomainRating := 60\<rparr>))" by simp
  have q: "0 < sint (DRMin (opts0\<lparr>DRMin := 50\<rparr>))" by simp
  from score_bounds [where d = dir0 and opts = opts0 and lo = 50 and hi = 0 and ds = rated
      and S = ascii_strings] z
  have a: "dir0 \<in> set (filter_loop ascii_strings (opts0\<lparr>DRMin := 50, DRMax := 0\<rparr>) rated []) \<longleftrightarrow>
    dir0 \<in> set (filter_loop ascii_strings opts0 rated [])"
    by blast
  from score_bounds [where d = "dir0\<lparr>DomainRating := 60\<rparr>" and opts = "opts0\<lparr>DRMin := 50\<rparr>"
      and ds = rated and out = "[dir0, dir0\<lparr>DomainRating := 60\<rparr>]" and S = ascii_strings] h p q
  have b: "sint (DRMin (opts0\<lparr>DRMin := 50\<rparr>)) \<le>
      sint (DomainRating (dir0\<lparr>DomainRating := 60\<rparr>))"
    by simp
  from z a h b show ?thesis by blast
qed

text \<open>
  A record with the nonzero score -5 passes a minimum of 50, which it does not reach: the
  source applies a bound only to a positive score.
\<close>

theorem negative_score_passes_minimum:
  "FilterDirectories ascii_strings [dir0\<lparr>DomainRating := - 5\<rparr>] (Some (opts0\<lparr>DRMin := 50\<rparr>)) =
     Inr [dir0\<lparr>DomainRating := - 5\<rparr>] \<and>
   DomainRating (dir0\<lparr>DomainRating := - 5\<rparr>) \<noteq> 0 \<and>
   sint (DomainRating (dir0\<lparr>DomainRating := - 5\<rparr>)) < sint (DRMin (opts0\<lparr>DRMin := 50\<rparr>))"
  by (simp add: FilterDirectories_Some filter_loop_eq keeps_def opts0_def dir0_def
      paginate_def)

section \<open>The two paths of the cache\<close>







lemma cache0_paths:
  "filepath_Join ''cache'' ''directories.json'' = ''cache/directories.json''"
  "filepath_Join ''cache'' ''metadata.json'' = ''cache/metadata.json''"
  by code_simp+

lemma cache0_files:
  "cacheFile cache0 = ''cache/directories.json''" "metaFile cache0 = ''cache/metadata.json''"
  "CacheTTL (cfg cache0) = 500" "CacheDir (cfg cache0) = ''cache''"
  by (simp_all add: cache0_def NewCache_def cache0_paths)

section \<open>The cache on disk\<close>

lemma loadFromCache_disk0:
  "loadFromCache cache0 (env0\<lparr>time_Now := t\<rparr>) disk0 = Inr ex_dirs"
  by (simp add: loadFromCache_def os_ReadFile_def cache0_files env0_def disk0_def)

lemma loadMetadata_disk0:
  "loadMetadata cache0 (env0\<lparr>time_Now := t\<rparr>) disk0 =
     Inr \<lparr>LastUpdated = 1000, Version = ''1.0'', Count = 2\<rparr>"
  by (simp add: loadMetadata_def os_ReadFile_def cache0_files env0_def disk0_def)

lemma time_Sub_le_iff:
  assumes "minDuration \<le> ttl" "ttl < maxDuration"
  shows "time_Sub t u \<le> ttl \<longleftrightarrow> t - u \<le> ttl"
  using assms by (auto simp: time_Sub_def Let_def)

lemma saveMetadata_written:
  "written (snd (saveMetadata c e d meta)) = written d \<or>
   written (snd (saveMetadata c e d meta)) = written d @ [metaFile c]"
  by (simp add: saveMetadata_def os_WriteFile_def split: sum.splits option.splits prod.splits)

lemma saveMetadata_ok_written:
  "fst (saveMetadata c e d meta) = None \<Longrightarrow>
   written (snd (saveMetadata c e d meta)) = written d @ [metaFile c]"
  by (simp add: saveMetadata_def os_WriteFile_def split: sum.splits option.splits prod.splits)


text \<open>
  When the collection file cannot be written, \<open>saveToCache\<close> stops there: nothing is added
  to the trace of writes.
\<close>

lemma saveToCache_write_refused:
  assumes "write_fault e (cacheFile c) = Some f"
  shows "written (snd (saveToCache c e d ds)) = written d"
    and "fst (saveToCache c e d ds) \<noteq> None"
  using assms
  by (simp_all add: saveToCache_def os_WriteFile_def
      split: sum.splits option.splits prod.splits)

text \<open>
  Once the directory exists, the collection is marshalled and its file written,
  \<open>saveToCache\<close> ends as \<open>saveMetadata\<close> does, on the disk that holds the new collection.
\<close>

lemma saveToCache_after_write:
  assumes "os_MkdirAll e (CacheDir (cfg c)) = None" and "json_MarshalIndent e ds = Inr data"
    and "write_fault e (cacheFile c) = None"
  shows "snd (saveToCache c e d ds) =
           snd (saveMetadata c e
                  (d\<lparr>files := (files d)(cacheFile c \<mapsto> data),
                     written := written d @ [cacheFile c]\<rparr>)
                  \<lparr>LastUpdated = time_Now e, Version = ''1.0'', Count = int (length ds)\<rparr>)"
    and "fst (saveToCache c e d ds) = None \<longleftrightarrow>
           fst (saveMetadata c e
                  (d\<lparr>files := (files d)(cacheFile c \<mapsto> data),
                     written := written d @ [cacheFile c]\<rparr>)
                  \<lparr>LastUpdated = time_Now e, Version = ''1.0'', Count = int (length ds)\<rparr>) = None"
  using assms
  by (simp_all add: saveToCache_def os_WriteFile_def Let_def split: prod.splits option.splits)

section \<open>C2: the stale fallback\<close>

text \<open>
  C2: when the collection on disk loads (a usable snapshot, of however many records) and
  the remote fetch fails, \<open>GetDirectories(ctx, false)\<close> returns that snapshot without
  error and leaves the disk alone, while \<open>Sync(ctx)\<close> returns the error of the fetch,
  wrapped.
\<close>

theorem stale_fallback:
  assumes "loadFromCache c e d = Inr snapshot" and "apiClient_GetDirectories e = Inl err"
  shows "GetDirectories c e d False = (Inr snapshot, d) \<and>
         Sync c e d = (Some (Wrap ''failed to fetch directories'' err), d)"
  using assms by (simp add: GetDirectories_def fetchFromAPI_def Sync_def)

text \<open>
  A snapshot of two records written at 1000, read at 1501 with a TTL of 500: the cache has
  expired, the remote is asked and refuses the connection, and the snapshot is served.
\<close>

theorem stale_fallback_witness:
  "\<not> isCacheValid cache0 (env0\<lparr>time_Now := 1501\<rparr>) disk0 \<and>
   loadFromCache cache0 (env0\<lparr>time_Now := 1501\<rparr>) disk0 = Inr ex_dirs \<and> length ex_dirs = 2 \<and>
   apiClient_GetDirectories (env0\<lparr>time_Now := 1501\<rparr>) = Inl (Err ''connection refused'') \<and>
   GetDirectories cache0 (env0\<lparr>time_Now := 1501\<rparr>) disk0 False = (Inr ex_dirs, disk0) \<and>
   Sync cache0 (env0\<lparr>time_Now := 1501\<rparr>) disk0 =
     (Some (Wrap ''failed to fetch directories'' (Err ''connection refused'')), disk0)"
proof -
  have a: "apiClient_GetDirectories (env0\<lparr>time_Now := 1501\<rparr>) = Inl (Err ''connection refused'')"
    by (simp add: env0_def)
  have n: "length ex_dirs = 2" by (simp add: ex_dirs_def)
  have v: "\<not> isCacheValid cache0 (env0\<lparr>time_Now := 1501\<rparr>) disk0"
    by (simp add: isCacheValid_def loadMetadata_disk0 cache0_files time_Since_def
        time_Sub_def maxDuration_def minDuration_def)
  from stale_fallback [OF loadFromCache_disk0 a] loadFromCache_disk0 [of 1501] n a v
  show ?thesis by simp
qed

section \<open>C4: the freshness boundary\<close>

text \<open>
  C4: for a snapshot (the metadata loads and the collection file exists), \<open>isCacheValid\<close>
  is true exactly when the age \<open>time.Since(meta.LastUpdated)\<close> does not exceed the TTL:
  true at age = TTL, false at any greater age. The age is a duration, so it stops at the
  largest duration; for every TTL below that one the test is the same on the exact
  difference of the two instants.
\<close>

theorem freshness_boundary:
  assumes "loadMetadata c e d = Inr meta" and "files d (cacheFile c) \<noteq> None"
  shows "(isCacheValid c e d \<longleftrightarrow> time_Since e (LastUpdated meta) \<le> CacheTTL (cfg c)) \<and>
         (minDuration \<le> CacheTTL (cfg c) \<and> CacheTTL (cfg c) < maxDuration \<longrightarrow>
            (isCacheValid c e d \<longleftrightarrow> time_Now e - LastUpdated meta \<le> CacheTTL (cfg c)))"
proof -
  from assms
  have v: "isCacheValid c e d \<longleftrightarrow> time_Since e (LastUpdated meta) \<le> CacheTTL (cfg c)"
    by (auto simp: isCacheValid_def stat_IsNotExist_def)
  then show ?thesis
    by (simp add: time_Since_def time_Sub_le_iff)
qed

text \<open>A TTL of 500 and a snapshot written at 1000: fresh at 1500, not fresh at 1501.\<close>

theorem freshness_boundary_witness:
  "time_Since (env0\<lparr>time_Now := 1500\<rparr>) 1000 = CacheTTL (cfg cache0) \<and>
   isCacheValid cache0 (env0\<lparr>time_Now := 1500\<rparr>) disk0 \<and>
   time_Since (env0\<lparr>time_Now := 1501\<rparr>) 1000 > CacheTTL (cfg cache0) \<and>
   \<not> isCacheValid cache0 (env0\<lparr>time_Now := 1501\<rparr>) disk0"
proof -
  have f: "files disk0 (cacheFile cache0) \<noteq> None"
    by (simp add: cache0_files disk0_def)
  have s: "time_Since (env0\<lparr>time_Now := 1500\<rparr>) 1000 = 500"
    "time_Since (env0\<lparr>time_Now := 1501\<rparr>) 1000 = 501"
    by (simp_all add: time_Since_def time_Sub_def maxDuration_def minDuration_def)
  from freshness_boundary [OF loadMetadata_disk0 f, of 1500]
    freshness_boundary [OF loadMetadata_disk0 f, of 1501] s
  show ?thesis by (simp add: cache0_files)
qed

section \<open>C9: metadata follows the collection\<close>

text \<open>
  C9: when the collection file is absent, \<open>isCacheValid\<close> is false whatever the metadata
  says; and \<open>saveToCache\<close> writes nothing, or the collection file alone, or the collection
  file and then the metadata file, the last whenever it returns no error.
\<close>

theorem metadata_follows_collection:
  "(files d (cacheFile c) = None \<longrightarrow> \<not> isCacheValid c e d) \<and>
   (written (snd (saveToCache c e d ds)) = written d \<or>
    written (snd (saveToCache c e d ds)) = written d @ [cacheFile c] \<or>
    written (snd (saveToCache c e d ds)) = written d @ [cacheFile c, metaFile c]) \<and>
   (fst (saveToCache c e d ds) = None \<longrightarrow>
    written (snd (saveToCache c e d ds)) = written d @ [cacheFile c, metaFile c])"
proof (intro conjI impI)
  assume "files d (cacheFile c) = None"
  then show "\<not> isCacheValid c e d"
    by (simp add: isCacheValid_def stat_IsNotExist_def split: sum.splits)
next
  show "written (snd (saveToCache c e d ds)) = written d \<or>
    written (snd (saveToCache c e d ds)) = written d @ [cacheFile c] \<or>
    written (snd (saveToCache c e d ds)) = written d @ [cacheFile c, metaFile c]"
  proof (cases "os_MkdirAll e (CacheDir (cfg c))")
    case (Some err)
    then show ?thesis by (simp add: saveToCache_def)
  next
    case None
    show ?thesis
    proof (cases "json_MarshalIndent e ds")
      case (Inl err)
      with None show ?thesis by (simp add: saveToCache_def)
    next
      case (Inr data)
      show ?thesis
      proof (cases "write_fault e (cacheFile c)")
        case (Some f)
        then show ?thesis by (simp add: saveToCache_write_refused(1))
      next
        case wf: None
        show ?thesis
          unfolding saveToCache_after_write(1) [OF None Inr wf]
          using saveMetadata_written
            [of c e "d\<lparr>files := (files d)(cacheFile c \<mapsto> data),
                       written := written d @ [cacheFile c]\<rparr>"]
          by auto
      qed
    qed
  qed
next
  assume ok: "fst (saveToCache c e d ds) = None"
  have m: "os_MkdirAll e (CacheDir (cfg c)) = None"
    using ok by (cases "os_MkdirAll e (CacheDir (cfg c))") (simp_all add: saveToCache_def)
  obtain data where j: "json_MarshalIndent e ds = Inr data"
    using ok m by (cases "json_MarshalIndent e ds") (simp_all add: saveToCache_def)
  have wf: "write_fault e (cacheFile c) = None"
    using ok saveToCache_write_refused(2) [of e c _ d ds]
    by (cases "write_fault e (cacheFile c)") auto
  from ok have "fst (saveMetadata c e
                  (d\<lparr>files := (files d)(cacheFile c \<mapsto> data),
                     written := written d @ [cacheFile c]\<rparr>)
                  \<lparr>LastUpdated = time_Now e, Version = ''1.0'', Count = int (length ds)\<rparr>) = None"
    by (simp add: saveToCache_after_write(2) [OF m j wf])
  from saveMetadata_ok_written [OF this]
  show "written (snd (saveToCache c e d ds)) = written d @ [cacheFile c, metaFile c]"
    by (simp add: saveToCache_after_write(1) [OF m j wf])
qed

text \<open>
  A disk with the metadata file and no collection file is not a valid cache; a save on an
  empty disk writes the collection file, then the metadata file.
\<close>

theorem metadata_follows_collection_witness:
  "files disk_meta_only (cacheFile cache0) = None \<and>
   \<not> isCacheValid cache0 env0 disk_meta_only \<and>
   fst (saveToCache cache0 env0 disk_empty ex_dirs) = None \<and>
   written (snd (saveToCache cache0 env0 disk_empty ex_dirs)) =
     [''cache/directories.json'', ''cache/metadata.json'']"
proof -
  have a: "files disk_meta_only (cacheFile cache0) = None"
    by (simp add: disk_meta_only_def cache0_files)
  have b: "fst (saveToCache cache0 env0 disk_empty ex_dirs) = None"
    by (simp add: saveToCache_def saveMetadata_def os_WriteFile_def cache0_files env0_def
        disk_empty_def)
  from metadata_follows_collection [of disk_meta_only cache0 env0 ex_dirs]
    metadata_follows_collection [of disk_empty cache0 env0 ex_dirs] a b
  show ?thesis by (simp add: cache0_files disk_empty_def)
qed

section \<open>C8: save, then load\<close>




end
